theory Spec2Isabelle
  imports Main "HOL-Library.Word"
begin

section \<open>JavaScript values\<close>

text \<open>
  A JavaScript string is a sequence of UTF-16 code units.  The distinction matters to
  this program: \<^verbatim>\<open>encodeURIComponent\<close> raises a \<^verbatim>\<open>URIError\<close> on a string with a
  lone surrogate, and such strings do arrive in a parsed JSON body.
\<close>

type_synonym jsstring = "16 word list"

definition lit :: "string \<Rightarrow> jsstring" where
  "lit s = map of_char s"

text \<open>
  The values the program handles are the ones \<^verbatim>\<open>JSON.parse\<close> produces, plus
  \<^verbatim>\<open>undefined\<close>.  Numbers are restricted to integers (the program never computes with a
  number it reads; it only tests and prints them).  An object is the association list
  of its own properties.
\<close>

datatype json =
    JUndefined
  | JNull
  | JBool bool
  | JNum int
  | JStr jsstring
  | JArr "json list"
  | JObj "(jsstring \<times> json) list"

text \<open>\<^verbatim>\<open>!v\<close> is the negation of this; \<^verbatim>\<open>a || b\<close> and \<^verbatim>\<open>c ? a : b\<close> test it.\<close>

fun truthy :: "json \<Rightarrow> bool" where
  "truthy JUndefined = False"
| "truthy JNull = False"
| "truthy (JBool b) = b"
| "truthy (JNum n) = (n \<noteq> 0)"
| "truthy (JStr s) = (s \<noteq> [])"
| "truthy (JArr xs) = True"
| "truthy (JObj kvs) = True"

fun nullish :: "json \<Rightarrow> bool" where
  "nullish JUndefined = True"
| "nullish JNull = True"
| "nullish v = False"

fun isArray :: "json \<Rightarrow> bool" where
  "isArray (JArr xs) = True"
| "isArray v = False"

fun elements :: "json \<Rightarrow> json list" where
  "elements (JArr xs) = xs"
| "elements v = []"

text \<open>
  \<^verbatim>\<open>v.k\<close> for a value \<open>v\<close> that is neither \<^verbatim>\<open>null\<close> nor \<^verbatim>\<open>undefined\<close>.  The keys the
  program reads are \<^verbatim>\<open>audience\<close>, \<^verbatim>\<open>goal\<close>, \<^verbatim>\<open>competitorYouTubeChannels\<close>,
  \<^verbatim>\<open>relevantSubreddits\<close>, \<^verbatim>\<open>items\<close>, \<^verbatim>\<open>snippet\<close>, \<^verbatim>\<open>title\<close>, \<^verbatim>\<open>id\<close>, \<^verbatim>\<open>channelId\<close>,
  \<^verbatim>\<open>access_token\<close>, \<^verbatim>\<open>data\<close>, \<^verbatim>\<open>children\<close>, \<^verbatim>\<open>candidates\<close>, \<^verbatim>\<open>content\<close>, \<^verbatim>\<open>parts\<close>,
  \<^verbatim>\<open>text\<close> and \<^verbatim>\<open>length\<close>; of these only \<^verbatim>\<open>length\<close> exists on arrays and strings, and
  none on numbers and booleans.
\<close>

fun member :: "json \<Rightarrow> jsstring \<Rightarrow> json" where
  "member (JObj kvs) k = (case map_of kvs k of Some v \<Rightarrow> v | None \<Rightarrow> JUndefined)"
| "member (JArr xs) k = (if k = lit ''length'' then JNum (int (length xs)) else JUndefined)"
| "member (JStr s) k = (if k = lit ''length'' then JNum (int (length s)) else JUndefined)"
| "member v k = JUndefined"

text \<open>\<^verbatim>\<open>v.k\<close> in general: reading a property of \<^verbatim>\<open>null\<close> or \<^verbatim>\<open>undefined\<close> raises a
  \<^verbatim>\<open>TypeError\<close>, which is \<open>None\<close> here.  Every such read of the program is inside a
  \<^verbatim>\<open>try\<close> block whose handler ignores which error it caught.\<close>

definition getprop :: "json \<Rightarrow> jsstring \<Rightarrow> json option" where
  "getprop v k = (if nullish v then None else Some (member v k))"

text \<open>\<^verbatim>\<open>v[0]\<close>.\<close>

fun at0 :: "json \<Rightarrow> json option" where
  "at0 JUndefined = None"
| "at0 JNull = None"
| "at0 (JArr xs) = Some (case xs of [] \<Rightarrow> JUndefined | x # _ \<Rightarrow> x)"
| "at0 (JStr s) = Some (case s of [] \<Rightarrow> JUndefined | c # _ \<Rightarrow> JStr [c])"
| "at0 (JObj kvs) = Some (member (JObj kvs) (lit ''0''))"
| "at0 v = Some JUndefined"

subsection \<open>Conversion to strings\<close>

fun intercalate :: "'a list \<Rightarrow> 'a list list \<Rightarrow> 'a list" where
  "intercalate sep [] = []"
| "intercalate sep [x] = x"
| "intercalate sep (x # y # ys) = x @ sep @ intercalate sep (y # ys)"

function digits :: "nat \<Rightarrow> jsstring" where
  "digits n = (if n < 10 then [of_nat (48 + n)] else digits (n div 10) @ [of_nat (48 + n mod 10)])"
  by pat_completeness auto
termination
  by (relation "measure id") auto

declare digits.simps [simp del]

text \<open>\<^verbatim>\<open>String(v)\<close>, which a template literal applies to each interpolated value.
  An array prints as its elements joined by commas, \<^verbatim>\<open>null\<close> and \<^verbatim>\<open>undefined\<close>
  elements as nothing.  Integers print in decimal (as JavaScript does below \<open>10\<^sup>2\<^sup>1\<close>).\<close>

fun toString :: "json \<Rightarrow> jsstring" where
  "toString JUndefined = lit ''undefined''"
| "toString JNull = lit ''null''"
| "toString (JBool b) = (if b then lit ''true'' else lit ''false'')"
| "toString (JNum n) = (if n < 0 then lit ''-'' @ digits (nat (- n)) else digits (nat n))"
| "toString (JStr s) = s"
| "toString (JArr xs) = intercalate (lit '','') (map (\<lambda>v. if nullish v then [] else toString v) xs)"
| "toString (JObj kvs) = lit ''[object Object]''"

text \<open>\<^verbatim>\<open>xs.join(sep)\<close>.\<close>

definition join :: "jsstring \<Rightarrow> json list \<Rightarrow> jsstring" where
  "join sep xs = intercalate sep (map (\<lambda>v. if nullish v then [] else toString v) xs)"

text \<open>\<^verbatim>\<open>v?.map(cb)\<close>: \<^verbatim>\<open>undefined\<close> when \<open>v\<close> is \<^verbatim>\<open>null\<close> or \<^verbatim>\<open>undefined\<close>; the mapped array
  when \<open>v\<close> is an array and the callback raises on no element; a \<^verbatim>\<open>TypeError\<close>
  otherwise (no other value has a callable \<^verbatim>\<open>map\<close>).  The outer \<open>option\<close> is the
  exception, the inner one \<^verbatim>\<open>undefined\<close>.\<close>

fun optional_map :: "(json \<Rightarrow> 'a option) \<Rightarrow> json \<Rightarrow> 'a list option option" where
  "optional_map cb JUndefined = Some None"
| "optional_map cb JNull = Some None"
| "optional_map cb (JArr xs) = map_option Some (those (map cb xs))"
| "optional_map cb v = None"

text \<open>\<^verbatim>\<open>... || []\<close> after it: an array is truthy, \<^verbatim>\<open>undefined\<close> is not.\<close>

definition or_empty :: "'a list option option \<Rightarrow> 'a list option" where
  "or_empty r = map_option (\<lambda>m. case m of None \<Rightarrow> [] | Some ys \<Rightarrow> ys) r"

text \<open>\<^verbatim>\<open>encodeURIComponent(s)\<close> raises a \<^verbatim>\<open>URIError\<close> unless every surrogate code unit
  of \<open>s\<close> is part of a high-low pair.  The encoded text itself is not modelled: a
  request below records the component unencoded.\<close>

definition is_high :: "16 word \<Rightarrow> bool" where
  "is_high c = (0xD800 \<le> c \<and> c \<le> 0xDBFF)"

definition is_low :: "16 word \<Rightarrow> bool" where
  "is_low c = (0xDC00 \<le> c \<and> c \<le> 0xDFFF)"

fun well_formed :: "jsstring \<Rightarrow> bool" where
  "well_formed [] = True"
| "well_formed [c] = (\<not> is_high c \<and> \<not> is_low c)"
| "well_formed (c # d # ds) =
     (if is_high c then is_low d \<and> well_formed ds
      else \<not> is_low c \<and> well_formed (d # ds))"

section \<open>The network\<close>

text \<open>
  One constructor for each URL the program builds, with the parts the program
  interpolates into it (or into the headers and body sent with it).
\<close>

datatype fetch_req =
    YouTubeVideoSearch jsstring nat jsstring
  | YouTubeChannelSearch jsstring jsstring
  | YouTubeChannelVideos jsstring nat jsstring
  | RedditAccessToken jsstring jsstring
  | RedditHot jsstring jsstring nat
  | GeminiGenerate jsstring jsstring

text \<open>What \<^verbatim>\<open>res.json()\<close> gives: a rejection on a body that is not JSON, or the value.\<close>

datatype body = Unparseable | Parsed json

text \<open>What \<^verbatim>\<open>fetch\<close> gives: a rejection, or a response with its \<^verbatim>\<open>ok\<close> flag and body.\<close>

datatype fetch_outcome = Rejected | Response bool body

type_synonym network = "fetch_req \<Rightarrow> fetch_outcome"

fun json_of :: "fetch_outcome \<Rightarrow> json option" where
  "json_of Rejected = None"
| "json_of (Response ok Unparseable) = None"
| "json_of (Response ok (Parsed v)) = Some v"

text \<open>Errors that leave the function raising them.\<close>

datatype js_error = URIError | Error jsstring

fun message :: "js_error \<Rightarrow> jsstring" where
  "message URIError = lit ''URI malformed''"
| "message (Error m) = m"

section \<open>API clients\<close>

record title_record =
  title :: json

definition snippet_title :: "json \<Rightarrow> title_record option" where
  "snippet_title item =
     (case getprop item (lit ''snippet'') of None \<Rightarrow> None
      | Some s \<Rightarrow> (case getprop s (lit ''title'') of None \<Rightarrow> None
                   | Some t \<Rightarrow> Some \<lparr>title = t\<rparr>))"

definition items_titles :: "json \<Rightarrow> title_record list option" where
  "items_titles data =
     (case getprop data (lit ''items'') of None \<Rightarrow> None
      | Some items \<Rightarrow> or_empty (optional_map snippet_title items))"

text \<open>Each client returns its result and the requests it sent, in order.\<close>

definition searchYouTubeVideos ::
  "network \<Rightarrow> jsstring \<Rightarrow> jsstring \<Rightarrow> nat \<Rightarrow> (js_error + title_record list) \<times> fetch_req list" where
  "searchYouTubeVideos fetch query apiKey maxResults =
     (if \<not> well_formed query then (Inl URIError, [])
      else
        let url = YouTubeVideoSearch query maxResults apiKey;
            tried = (case fetch url of
                       Rejected \<Rightarrow> None
                     | Response ok b \<Rightarrow>
                         if \<not> ok then None
                         else (case b of Unparseable \<Rightarrow> None | Parsed data \<Rightarrow> items_titles data))
        in (Inr (case tried of None \<Rightarrow> [] | Some r \<Rightarrow> r), [url]))"

text \<open>Step 1 of \<^verbatim>\<open>getChannelVideos\<close> after the response is parsed: \<open>None\<close> is an exception,
  \<open>Some None\<close> the early \<^verbatim>\<open>return []\<close>, \<open>Some (Some c)\<close> the channel id.\<close>

definition channel_id :: "json \<Rightarrow> json option option" where
  "channel_id channelResponse =
     (case getprop channelResponse (lit ''items'') of None \<Rightarrow> None
      | Some items \<Rightarrow>
          if \<not> truthy items \<or> member items (lit ''length'') = JNum 0 then Some None
          else (case at0 items of None \<Rightarrow> None
                | Some i \<Rightarrow> (case getprop i (lit ''id'') of None \<Rightarrow> None
                             | Some d \<Rightarrow> map_option Some (getprop d (lit ''channelId'')))))"

definition getChannelVideos ::
  "network \<Rightarrow> json \<Rightarrow> jsstring \<Rightarrow> nat \<Rightarrow> title_record list \<times> fetch_req list" where
  "getChannelVideos fetch channelName apiKey maxResults =
     (if \<not> well_formed (toString channelName) then ([], [])
      else
        let channelSearchUrl = YouTubeChannelSearch (toString channelName) apiKey in
        case json_of (fetch channelSearchUrl) of
          None \<Rightarrow> ([], [channelSearchUrl])
        | Some channelResponse \<Rightarrow>
            (case channel_id channelResponse of
               None \<Rightarrow> ([], [channelSearchUrl])
             | Some None \<Rightarrow> ([], [channelSearchUrl])
             | Some (Some channelId) \<Rightarrow>
                 let videosUrl = YouTubeChannelVideos (toString channelId) maxResults apiKey in
                 (case json_of (fetch videosUrl) of
                    None \<Rightarrow> ([], [channelSearchUrl, videosUrl])
                  | Some videosResponse \<Rightarrow>
                      (case items_titles videosResponse of
                         None \<Rightarrow> ([], [channelSearchUrl, videosUrl])
                       | Some r \<Rightarrow> (r, [channelSearchUrl, videosUrl])))))"

text \<open>The module-level cache of the Reddit token.\<close>

record redditToken =
  val :: json
  expires :: int

definition redditToken_init :: redditToken where
  "redditToken_init = \<lparr>val = JNull, expires = 0\<rparr>"

text \<open>
  \<^verbatim>\<open>Date.now()\<close> is read twice: \<open>now\<close> when the cache is tested, and \<open>now'\<close> after the
  response has arrived, when the new token is stamped.  The result is the token (or
  \<^verbatim>\<open>null\<close>), the cache afterwards, and the requests sent.
\<close>

definition getRedditAccessToken ::
  "network \<Rightarrow> int \<Rightarrow> int \<Rightarrow> redditToken \<Rightarrow> jsstring \<Rightarrow> jsstring
     \<Rightarrow> json \<times> redditToken \<times> fetch_req list" where
  "getRedditAccessToken fetch now now' cache clientId clientSecret =
     (if truthy (val cache) \<and> expires cache > now then (val cache, cache, [])
      else
        let url = RedditAccessToken clientId clientSecret in
        case json_of (fetch url) of
          None \<Rightarrow> (JNull, cache, [url])
        | Some response \<Rightarrow>
            (case getprop response (lit ''access_token'') of
               None \<Rightarrow> (JNull, cache, [url])
             | Some tok \<Rightarrow>
                 if \<not> truthy tok then (JNull, cache, [url])
                 else (tok, \<lparr>val = tok, expires = now' + 50 * 60 * 1000\<rparr>, [url])))"

definition data_title :: "json \<Rightarrow> title_record option" where
  "data_title post =
     (case getprop post (lit ''data'') of None \<Rightarrow> None
      | Some d \<Rightarrow> (case getprop d (lit ''title'') of None \<Rightarrow> None
                   | Some t \<Rightarrow> Some \<lparr>title = t\<rparr>))"

text \<open>\<^verbatim>\<open>response.data?.children?.map(...) || []\<close>.\<close>

definition children_titles :: "json \<Rightarrow> title_record list option" where
  "children_titles response =
     (case getprop response (lit ''data'') of None \<Rightarrow> None
      | Some d \<Rightarrow>
          if nullish d then Some []
          else or_empty (optional_map data_title (member d (lit ''children''))))"

definition getSubredditPosts ::
  "network \<Rightarrow> json \<Rightarrow> json \<Rightarrow> nat \<Rightarrow> title_record list \<times> fetch_req list" where
  "getSubredditPosts fetch subreddit accessToken limit =
     (let url = RedditHot (toString subreddit) (toString accessToken) limit in
      case json_of (fetch url) of
        None \<Rightarrow> ([], [url])
      | Some response \<Rightarrow>
          (case children_titles response of
             None \<Rightarrow> ([], [url])
           | Some r \<Rightarrow> (r, [url])))"

text \<open>\<^verbatim>\<open>data.candidates[0].content.parts[0].text\<close>.\<close>

definition candidate_text :: "json \<Rightarrow> json option" where
  "candidate_text data =
     (case getprop data (lit ''candidates'') of None \<Rightarrow> None
      | Some cs \<Rightarrow> (case at0 cs of None \<Rightarrow> None
      | Some c \<Rightarrow> (case getprop c (lit ''content'') of None \<Rightarrow> None
      | Some ct \<Rightarrow> (case getprop ct (lit ''parts'') of None \<Rightarrow> None
      | Some ps \<Rightarrow> (case at0 ps of None \<Rightarrow> None
      | Some p \<Rightarrow> getprop p (lit ''text''))))))"

definition gemini_tried :: "fetch_outcome \<Rightarrow> json option" where
  "gemini_tried r =
     (case r of
        Rejected \<Rightarrow> None
      | Response ok b \<Rightarrow>
          if \<not> ok then None
          else (case b of Unparseable \<Rightarrow> None | Parsed data \<Rightarrow> candidate_text data))"

definition callGeminiAPI ::
  "network \<Rightarrow> jsstring \<Rightarrow> jsstring \<Rightarrow> (js_error + json) \<times> fetch_req list" where
  "callGeminiAPI fetch prompt apiKey =
     (let url = GeminiGenerate prompt apiKey in
      (case gemini_tried (fetch url) of
         None \<Rightarrow> Inl (Error (lit ''Failed to get a valid response from the Gemini API.''))
       | Some t \<Rightarrow> Inr t,
       [url]))"

section \<open>Joining concurrent calls\<close>

text \<open>
  \<^verbatim>\<open>Promise.all(ps)\<close> allocates one slot for each promise of \<open>ps\<close>.  When the promise at
  index \<open>i\<close> settles, its value is written to slot \<open>i\<close>; once every slot is written, the
  joint promise resolves with the slots, and until then it is pending (\<open>None\<close>).
  \<open>settled\<close> lists the indices in the order in which the promises settle, which is the
  network's choice, not the program's.
\<close>

definition promise_all :: "nat list \<Rightarrow> 'a list \<Rightarrow> 'a list option" where
  "promise_all settled ps =
     those (fold (\<lambda>i slots. if i < length slots then slots[i := Some (ps ! i)] else slots)
              settled (replicate (length ps) None))"

text \<open>An order in which each of \<open>n\<close> promises settles once.\<close>

definition settles_all :: "nat \<Rightarrow> nat list \<Rightarrow> bool" where
  "settles_all n settled = (sort settled = [0..<n])"

section \<open>The handler\<close>

text \<open>
  What the handler's surroundings decide during one invocation: the answer of the
  network to each request, the two clock readings of the token cache, and the order in
  which the per-channel and the per-subreddit promises settle.
\<close>

record world =
  fetch :: network
  now_test :: int
  now_stamp :: int
  channels_settled :: "nat list"
  subreddits_settled :: "nat list"

text \<open>\<^verbatim>\<open>process.env\<close>: each variable is a string or \<^verbatim>\<open>undefined\<close>.\<close>

record env =
  YOUTUBE_API_KEY :: json
  REDDIT_CLIENT_ID :: json
  REDDIT_CLIENT_SECRET :: json
  GEMINI_API_KEY :: json

text \<open>\<^verbatim>\<open>req.method\<close> and \<^verbatim>\<open>req.body\<close>.\<close>

record request =
  http_method :: jsstring
  body :: json

datatype sent = Ended | Json json | Send json

record response =
  status :: nat
  headers :: "(jsstring \<times> jsstring) list"
  sent :: sent

definition cors :: "(jsstring \<times> jsstring) list" where
  "cors =
     [(lit ''Access-Control-Allow-Origin'', lit ''*''),
      (lit ''Access-Control-Allow-Methods'', lit ''POST, OPTIONS''),
      (lit ''Access-Control-Allow-Headers'', lit ''Content-Type'')]"

record channel_result =
  channel :: json
  videos :: "title_record list"

record subreddit_result =
  subreddit :: json
  posts :: "title_record list"

record collected =
  topVideos :: "title_record list"
  competitorVideosData :: "channel_result list"
  redditPostsData :: "subreddit_result list"

subsection \<open>Phase 1: data collection\<close>

text \<open>The second element of the outer \<^verbatim>\<open>Promise.all\<close>.  Within a branch, the requests
  are listed item by item in input order; the order in which concurrent items really
  send theirs is not modelled.\<close>

definition competitor_branch ::
  "world \<Rightarrow> jsstring \<Rightarrow> json list \<Rightarrow> channel_result list option \<times> fetch_req list" where
  "competitor_branch w apiKey competitorYouTubeChannels =
     (promise_all (channels_settled w)
        (map (\<lambda>c. \<lparr>channel = c, videos = fst (getChannelVideos (fetch w) c apiKey 3)\<rparr>)
           competitorYouTubeChannels),
      concat (map (\<lambda>c. snd (getChannelVideos (fetch w) c apiKey 3)) competitorYouTubeChannels))"

text \<open>The third element.\<close>

definition reddit_branch ::
  "world \<Rightarrow> redditToken \<Rightarrow> jsstring \<Rightarrow> jsstring \<Rightarrow> json list
     \<Rightarrow> subreddit_result list option \<times> redditToken \<times> fetch_req list" where
  "reddit_branch w cache clientId clientSecret relevantSubreddits =
     (case getRedditAccessToken (fetch w) (now_test w) (now_stamp w) cache clientId clientSecret of
        (token, cache', calls) \<Rightarrow>
          if truthy token
          then (promise_all (subreddits_settled w)
                  (map (\<lambda>s. \<lparr>subreddit = s, posts = fst (getSubredditPosts (fetch w) s token 3)\<rparr>)
                     relevantSubreddits),
                cache',
                calls @ concat (map (\<lambda>s. snd (getSubredditPosts (fetch w) s token 3)) relevantSubreddits))
          else (Some [], cache', calls))"

text \<open>
  The outer \<^verbatim>\<open>Promise.all\<close> and its \<^verbatim>\<open>await\<close>.  All three branches are started before
  the join, so each sends its requests whatever the others do.  The join rejects as
  soon as one element rejects, and only the first element can.
\<close>

definition collect ::
  "world \<Rightarrow> redditToken \<Rightarrow> env \<Rightarrow> json \<Rightarrow> json \<Rightarrow> json list \<Rightarrow> json list
     \<Rightarrow> (js_error + collected) option \<times> redditToken \<times> fetch_req list" where
  "collect w cache e audience goal competitorYouTubeChannels relevantSubreddits =
     (case searchYouTubeVideos (fetch w) (toString audience @ lit '' '' @ toString goal)
             (toString (YOUTUBE_API_KEY e)) 3 of
        (search, calls1) \<Rightarrow>
     (case competitor_branch w (toString (YOUTUBE_API_KEY e)) competitorYouTubeChannels of
        (competitor, calls2) \<Rightarrow>
     (case reddit_branch w cache (toString (REDDIT_CLIENT_ID e)) (toString (REDDIT_CLIENT_SECRET e))
             relevantSubreddits of
        (reddit, cache', calls3) \<Rightarrow>
       ((case search of
           Inl err \<Rightarrow> Some (Inl err)
         | Inr t \<Rightarrow>
             (case competitor of None \<Rightarrow> None
              | Some c \<Rightarrow>
                  (case reddit of None \<Rightarrow> None
                   | Some r \<Rightarrow>
                       Some (Inr \<lparr>topVideos = t, competitorVideosData = c, redditPostsData = r\<rparr>)))),
        cache',
        calls1 @ calls2 @ calls3))))"

subsection \<open>Phase 2: prompt construction\<close>

definition topVideoTitles :: "title_record list \<Rightarrow> jsstring" where
  "topVideoTitles tv = join (lit '', '') (map title tv)"

definition competitor_group :: "channel_result \<Rightarrow> jsstring" where
  "competitor_group c = toString (channel c) @ lit '': '' @ join (lit '', '') (map title (videos c))"

definition competitorVideoTitles :: "channel_result list \<Rightarrow> jsstring" where
  "competitorVideoTitles cd = join (lit '' | '') (map (\<lambda>c. JStr (competitor_group c)) cd)"

definition reddit_group :: "subreddit_result \<Rightarrow> jsstring" where
  "reddit_group s =
     lit ''r/'' @ toString (subreddit s) @ lit '': '' @ join (lit '', '') (map title (posts s))"

definition redditPostTitles :: "subreddit_result list \<Rightarrow> jsstring" where
  "redditPostTitles rd = join (lit '' | '') (map (\<lambda>s. JStr (reddit_group s)) rd)"

text \<open>\<^verbatim>\<open>s || "N/A"\<close> for a string \<open>s\<close>.\<close>

definition or_NA :: "jsstring \<Rightarrow> jsstring" where
  "or_NA s = (if s = [] then lit ''N/A'' else s)"

definition prompt_intro :: jsstring where
  \<open>prompt_intro = lit ''\<newline>You are a world-class content strategist and data analyst. I have gathered real-time data from YouTube and Reddit for a client. Your task is to generate a complete content strategy based on this data and your own expert knowledge.\<newline>\<newline>Client Details:\<newline>- Target Audience: ''\<close>

definition prompt_goal :: jsstring where
  \<open>prompt_goal = lit ''\<newline>- Primary Goal: ''\<close>

definition prompt_top :: jsstring where
  \<open>prompt_top = lit ''\<newline>\<newline>Live Data Collected:\<newline>- Top YouTube Videos: ''\<close>

definition prompt_competitor :: jsstring where
  \<open>prompt_competitor = lit ''\<newline>- Competitor YouTube Videos: ''\<close>

definition prompt_reddit :: jsstring where
  \<open>prompt_reddit = lit ''\<newline>- Top Reddit Posts: ''\<close>

definition prompt_contract :: "string list" where
  \<open>prompt_contract =
    ['''',
     ''Based on all of this, provide a response in a single JSON object with the following four keys: "trendDiscovery", "contentAnalysis", "competitorReport", "strategyCalendar".'',
     '''',
     ''1.  "trendDiscovery": An object containing trend analysis from four key platforms.'',
     ''    - "youtubeTrends": Analyze the provided YouTube data to identify 3-5 key trends.'',
     ''    - "redditTrends": Analyze the provided Reddit data to identify 3-5 key community topics and sentiments.'',
     ''    - "simulatedXTrends": Act as an expert on X (Twitter). Based on your knowledge, simulate the top 3-5 trending topics and content formats (e.g., threads, memes) relevant to the target audience on X right now.'',
     ''    - "simulatedGoogleTrends": Act as an expert search analyst. Based on your knowledge, simulate the top 3-5 rising search queries on Google Trends relevant to the target audience.'',
     '''',
     ''2.  "contentAnalysis": An object that deconstructs what makes high-performing content successful.'',
     ''    - "winningFormats": Identify the most effective content formats (e.g., YouTube Shorts, long-form video) based on all available data.'',
     ''    - "toneOfVoice": Describe the most successful tone of voice (e.g., \'humorous and informal\', \'educational and authoritative\').'',
     ''    - "engagementTriggers": List common engagement triggers found in the content (e.g., \'asking a direct question\', \'hosting a challenge\').'',
     ''    - "optimalTiming": Suggest the best days and times to post, providing a rationale.'',
     '''',
     ''3.  "competitorReport": An object analyzing the specified competitors.'',
     ''    - "youtubeCompetitorAnalysis": Analyze the provided competitor YouTube video titles. Summarize their content strategy, topic focus, and posting frequency.'',
     ''    - "inferredXStrategy": Based on their known strategy, infer what their strategy on X would likely be.'',
     '''',
     ''4.  "strategyCalendar": An array of 30 objects, representing a full 30-day content plan. Each object in the array must have the following structure: { "day": number, "platform": "YouTube/Instagram/Reddit", "title": "A catchy, fully-formed content title", "format": "e.g., YouTube Short, IG Reel, Reddit Thread", "description": "A 1-2 sentence description of the content piece." }'']\<close>

definition masterPrompt :: "json \<Rightarrow> json \<Rightarrow> collected \<Rightarrow> jsstring" where
  "masterPrompt audience goal cd =
     prompt_intro @ toString audience
     @ prompt_goal @ toString goal
     @ prompt_top @ or_NA (topVideoTitles (topVideos cd))
     @ prompt_competitor @ or_NA (competitorVideoTitles (competitorVideosData cd))
     @ prompt_reddit @ or_NA (redditPostTitles (redditPostsData cd))
     @ lit ''\<newline>'' @ concat (map (\<lambda>l. lit l @ lit ''\<newline>'') prompt_contract)"

subsection \<open>The request\<close>

definition error_body :: "string \<Rightarrow> json" where
  "error_body m = JObj [(lit ''error'', JStr (lit m))]"

definition internal_error :: "js_error \<Rightarrow> response" where
  "internal_error err =
     \<lparr>status = 500, headers = cors,
      sent = Json (JObj [(lit ''error'', JStr (lit ''An internal server error occurred.'')),
                         (lit ''details'', JStr (message err))])\<rparr>"

text \<open>The final response: \<^verbatim>\<open>Content-Type\<close> is set, then \<^verbatim>\<open>res.status(200).send(t)\<close>.\<close>

definition success_response :: "json \<Rightarrow> response" where
  "success_response t =
     \<lparr>status = 200, headers = cors @ [(lit ''Content-Type'', lit ''application/json'')],
      sent = Send t\<rparr>"

text \<open>The body's four fields pass the input validation.\<close>

definition valid_body :: "json \<Rightarrow> bool" where
  "valid_body b =
     (truthy (member b (lit ''audience'')) \<and> truthy (member b (lit ''goal''))
      \<and> isArray (member b (lit ''competitorYouTubeChannels''))
      \<and> isArray (member b (lit ''relevantSubreddits'')))"

definition configured :: "env \<Rightarrow> bool" where
  "configured e =
     (truthy (YOUTUBE_API_KEY e) \<and> truthy (REDDIT_CLIENT_ID e)
      \<and> truthy (REDDIT_CLIENT_SECRET e) \<and> truthy (GEMINI_API_KEY e))"

text \<open>Phases 1 to 3 and the final response, for a body that passed validation
  (\<open>b\<close> is \<^verbatim>\<open>req.body\<close>).\<close>

definition strategy ::
  "world \<Rightarrow> redditToken \<Rightarrow> env \<Rightarrow> json \<Rightarrow> response option \<times> redditToken \<times> fetch_req list" where
  "strategy w cache e b =
     (case collect w cache e (member b (lit ''audience'')) (member b (lit ''goal''))
             (elements (member b (lit ''competitorYouTubeChannels'')))
             (elements (member b (lit ''relevantSubreddits''))) of
        (None, cache', calls) \<Rightarrow> (None, cache', calls)
      | (Some (Inl err), cache', calls) \<Rightarrow> (Some (internal_error err), cache', calls)
      | (Some (Inr cd), cache', calls) \<Rightarrow>
          (case callGeminiAPI (fetch w)
                  (masterPrompt (member b (lit ''audience'')) (member b (lit ''goal'')) cd)
                  (toString (GEMINI_API_KEY e)) of
             (Inl err, calls') \<Rightarrow> (Some (internal_error err), cache', calls @ calls')
           | (Inr geminiResponse, calls') \<Rightarrow>
               (Some (success_response geminiResponse), cache', calls @ calls')))"

text \<open>\<^verbatim>\<open>req.body || {}\<close>, the value the four fields are read from.  It is truthy, so
  destructuring it raises nothing.\<close>

definition destructured :: "request \<Rightarrow> json" where
  "destructured req = (if truthy (body req) then body req else JObj [])"

definition method_not_allowed_response :: response where
  "method_not_allowed_response =
     \<lparr>status = 405, headers = cors, sent = Json (error_body ''Method Not Allowed'')\<rparr>"

definition invalid_request_response :: response where
  "invalid_request_response =
     \<lparr>status = 400, headers = cors,
      sent = Json (error_body ''Invalid request body. Ensure all required fields are present.'')\<rparr>"

definition configuration_error_response :: response where
  "configuration_error_response =
     \<lparr>status = 500, headers = cors, sent = Json (error_body ''Server configuration error.'')\<rparr>"

text \<open>
  The exported function.  The result is the response (\<open>None\<close> when the handler never
  responds), the token cache afterwards and the requests sent.
\<close>

definition handler ::
  "world \<Rightarrow> redditToken \<Rightarrow> env \<Rightarrow> request \<Rightarrow> response option \<times> redditToken \<times> fetch_req list" where
  "handler w cache e req =
     (if http_method req = lit ''OPTIONS''
      then (Some \<lparr>status = 204, headers = cors, sent = Ended\<rparr>, cache, [])
      else if http_method req \<noteq> lit ''POST''
      then (Some method_not_allowed_response, cache, [])
      else if \<not> valid_body (destructured req)
      then (Some invalid_request_response, cache, [])
      else if \<not> configured e
      then (Some configuration_error_response, cache, [])
      else strategy w cache e (destructured req))"

section \<open>Notions of the specification\<close>

text \<open>A cached token exists and the time \<open>now\<close> is strictly before its expiry.\<close>

definition cache_fresh :: "redditToken \<Rightarrow> int \<Rightarrow> bool" where
  "cache_fresh cache now = (truthy (val cache) \<and> now < expires cache)"

text \<open>The credential exchange fails: a network error, a malformed response, or a
  response without a token field (or with one that JavaScript counts as false).\<close>

fun exchange_fails :: "fetch_outcome \<Rightarrow> bool" where
  "exchange_fails Rejected = True"
| "exchange_fails (Response ok Unparseable) = True"
| "exchange_fails (Response ok (Parsed v)) =
     (nullish v \<or> \<not> truthy (member v (lit ''access_token'')))"


section \<open>Example inputs\<close>

definition sample_env :: env where
  "sample_env =
     \<lparr>YOUTUBE_API_KEY = JStr (lit ''yt-key''), REDDIT_CLIENT_ID = JStr (lit ''reddit-id''),
      REDDIT_CLIENT_SECRET = JStr (lit ''reddit-secret''), GEMINI_API_KEY = JStr (lit ''gemini-key'')\<rparr>"

definition unset_env :: env where
  "unset_env =
     \<lparr>YOUTUBE_API_KEY = JUndefined, REDDIT_CLIENT_ID = JUndefined,
      REDDIT_CLIENT_SECRET = JUndefined, GEMINI_API_KEY = JUndefined\<rparr>"

definition titled :: "string \<Rightarrow> string \<Rightarrow> json" where
  "titled k t = JObj [(lit k, JObj [(lit ''title'', JStr (lit t))])]"

definition envelope :: "json \<Rightarrow> json" where
  "envelope part =
     JObj [(lit ''candidates'', JArr [JObj [(lit ''content'', JObj [(lit ''parts'', JArr [part])])]])]"

text \<open>A network on which every source answers with data.\<close>

fun sample_net :: network where
  "sample_net (YouTubeVideoSearch q n k) =
     Response True (Parsed (JObj [(lit ''items'', JArr [titled ''snippet'' ''Sleep tips''])]))"
| "sample_net (YouTubeChannelSearch c k) =
     Response True (Parsed (JObj [(lit ''items'',
       JArr [JObj [(lit ''id'', JObj [(lit ''channelId'', JStr (lit ''UC1''))])]])]))"
| "sample_net (YouTubeChannelVideos c n k) =
     Response True (Parsed (JObj [(lit ''items'', JArr [titled ''snippet'' ''First steps''])]))"
| "sample_net (RedditAccessToken i s) =
     Response True (Parsed (JObj [(lit ''access_token'', JStr (lit ''tok''))]))"
| "sample_net (RedditHot s t n) =
     Response True (Parsed (JObj [(lit ''data'',
       JObj [(lit ''children'', JArr [titled ''data'' ''Teething'']) ])]))"
| "sample_net (GeminiGenerate p k) =
     Response True (Parsed (envelope (JObj [(lit ''text'', JStr (lit ''{}''))])))"

text \<open>The same network with the credential exchange failing.\<close>

definition no_token_net :: network where
  "no_token_net = sample_net (RedditAccessToken (lit ''reddit-id'') (lit ''reddit-secret'') := Rejected)"


definition sample_world :: world where
  "sample_world =
     \<lparr>fetch = sample_net, now_test = 0, now_stamp = 1,
      channels_settled = [1, 0], subreddits_settled = [0]\<rparr>"



definition post :: "json \<Rightarrow> request" where
  "post b = \<lparr>http_method = lit ''POST'', body = b\<rparr>"

definition sample_body :: json where
  "sample_body =
     JObj [(lit ''audience'', JStr (lit ''new parents'')),
           (lit ''goal'', JStr (lit ''grow subscribers'')),
           (lit ''competitorYouTubeChannels'', JArr [JStr (lit ''ChannelA''), JStr (lit ''ChannelB'')]),
           (lit ''relevantSubreddits'', JArr [JStr (lit ''parenting'')])]"

text \<open>A body without \<^verbatim>\<open>audience\<close>.\<close>

definition no_audience_body :: json where
  "no_audience_body =
     JObj [(lit ''goal'', JStr (lit ''grow subscribers'')),
           (lit ''competitorYouTubeChannels'', JArr []),
           (lit ''relevantSubreddits'', JArr [])]"

text \<open>A body whose \<^verbatim>\<open>audience\<close> is present and is the empty string.\<close>

definition empty_audience_body :: json where
  "empty_audience_body =
     JObj [(lit ''audience'', JStr []),
           (lit ''goal'', JStr (lit ''grow subscribers'')),
           (lit ''competitorYouTubeChannels'', JArr []),
           (lit ''relevantSubreddits'', JArr [])]"

text \<open>A body whose \<^verbatim>\<open>audience\<close> is the string of the single code unit \<open>D800\<close>, as
  \<^verbatim>\<open>JSON.parse\<close> gives for the text \<^verbatim>\<open>"\ud800"\<close>.\<close>

definition lone_surrogate_body :: json where
  "lone_surrogate_body =
     JObj [(lit ''audience'', JStr [0xD800]),
           (lit ''goal'', JStr (lit ''grow subscribers'')),
           (lit ''competitorYouTubeChannels'', JArr []),
           (lit ''relevantSubreddits'', JArr [])]"






text \<open>A cache holding a token that expires at time 10.\<close>

definition cached_token :: redditToken where
  "cached_token = \<lparr>val = JStr (lit ''old''), expires = 10\<rparr>"

section \<open>Basic facts\<close>

lemma post_not_options: "lit ''POST'' \<noteq> lit ''OPTIONS''"
  by (simp add: lit_def)







subsection \<open>The join\<close>

lemma promise_all_slots:
  "length slots = length ps \<Longrightarrow> i < length ps \<Longrightarrow>
     fold (\<lambda>i slots. if i < length slots then slots[i := Some (ps ! i)] else slots) settled slots ! i
       = (if i \<in> set settled then Some (ps ! i) else slots ! i)"
proof (induction settled arbitrary: slots)
  case Nil
  then show ?case by simp
next
  case (Cons j settled)
  let ?slots = "if j < length slots then slots[j := Some (ps ! j)] else slots"
  have len: "length ?slots = length ps" using Cons.prems by simp
  show ?case
    using Cons.IH [OF len Cons.prems(2)] Cons.prems
    by (auto simp: nth_list_update)
qed

lemma fold_slots_length:
  "length (fold (\<lambda>i slots. if i < length slots then slots[i := Some (ps ! i)] else slots) settled slots)
     = length slots"
  by (induction settled arbitrary: slots) auto

lemma those_map_Some: "those (map Some xs) = Some xs"
  by (induction xs) auto

lemma settles_all_set: "settles_all n settled \<Longrightarrow> set settled = {..<n}"
proof -
  assume "settles_all n settled"
  then have "set (sort settled) = set [0..<n]" by (simp add: settles_all_def)
  then show ?thesis by (simp add: atLeast0LessThan)
qed

text \<open>Once every promise has settled, in whatever order, the joint promise holds the
  values in the order of the promises.\<close>

lemma promise_all_settled:
  assumes "settles_all (length ps) settled"
  shows "promise_all settled ps = Some ps"
proof -
  let ?f = "\<lambda>i slots. if i < length slots then slots[i := Some (ps ! i)] else slots"
  let ?r = "fold ?f settled (replicate (length ps) None)"
  have len: "length ?r = length ps" by (simp add: fold_slots_length)
  have "?r = map Some ps"
  proof (rule nth_equalityI)
    show "length ?r = length (map Some ps)" using len by simp
  next
    fix i assume "i < length ?r"
    then have i: "i < length ps" using len by simp
    then have "i \<in> set settled" using settles_all_set [OF assms] by simp
    with i show "?r ! i = map Some ps ! i"
      using promise_all_slots [of "replicate (length ps) None" ps i settled] by simp
  qed
  then show ?thesis by (simp add: promise_all_def those_map_Some)
qed

lemma promise_all_nil: "promise_all settled [] = Some []"
proof -
  have "fold (\<lambda>i slots. if i < length slots then slots[i := Some ([] ! i)] else slots) settled []
          = ([] :: 'a option list)"
    by (induction settled) auto
  then show ?thesis by (simp add: promise_all_def)
qed

subsection \<open>The token cache\<close>

lemma token_absent_iff:
  "fst (getRedditAccessToken net now now' cache clientId clientSecret) = JNull
     \<longleftrightarrow> \<not> cache_fresh cache now \<and> exchange_fails (net (RedditAccessToken clientId clientSecret))"
proof (cases "net (RedditAccessToken clientId clientSecret)")
  case Rejected
  then show ?thesis
    by (auto simp: getRedditAccessToken_def cache_fresh_def)
next
  case (Response ok b)
  then show ?thesis
    by (cases b) (auto simp: getRedditAccessToken_def cache_fresh_def getprop_def Let_def)
qed

lemma token_absent_result:
  assumes "fst (getRedditAccessToken net now now' cache clientId clientSecret) = JNull"
  shows "getRedditAccessToken net now now' cache clientId clientSecret
           = (JNull, cache, [RedditAccessToken clientId clientSecret])"
proof -
  from assms have "\<not> (truthy (val cache) \<and> now < expires cache)"
    by (auto simp: getRedditAccessToken_def)
  with assms show ?thesis
    by (auto simp: getRedditAccessToken_def Let_def split: option.splits if_splits)
qed

lemma token_calls:
  "snd (snd (getRedditAccessToken net now now' cache clientId clientSecret))
     = (if cache_fresh cache now then [] else [RedditAccessToken clientId clientSecret])"
  by (auto simp: getRedditAccessToken_def cache_fresh_def Let_def split: option.splits)

subsection \<open>The branches and the handler\<close>






text \<open>The sibling of \<open>searchYouTubeVideos\<close> builds its URL inside the \<^verbatim>\<open>try\<close> block: a
  channel name that cannot be encoded gives the empty list and no request.\<close>

lemma channel_absorbs_uri_error:
  "\<not> well_formed (toString c) \<Longrightarrow> getChannelVideos net c k n = ([], [])"
  by (simp add: getChannelVideos_def)

lemma search_raises_uri_error:
  "\<not> well_formed q \<Longrightarrow> searchYouTubeVideos net q k n = (Inl URIError, [])"
  by (simp add: searchYouTubeVideos_def)

lemma search_returns:
  "well_formed q \<Longrightarrow> \<exists>t. fst (searchYouTubeVideos net q k n) = Inr t"
  by (simp add: searchYouTubeVideos_def Let_def)

text \<open>Apart from that one error, the data collection yields its data on every network,
  once all per-item promises have settled.\<close>

lemma collect_succeeds:
  assumes "well_formed (toString a @ lit '' '' @ toString g)"
    and "settles_all (length cs) (channels_settled w)"
    and "settles_all (length ss) (subreddits_settled w)"
  shows "\<exists>cd. fst (collect w cache e a g cs ss) = Some (Inr cd)"
proof -
  from search_returns [OF assms(1)] obtain t where
    t: "fst (searchYouTubeVideos (fetch w) (toString a @ lit '' '' @ toString g)
              (toString (YOUTUBE_API_KEY e)) 3) = Inr t"
    by blast
  have c: "\<exists>c. fst (competitor_branch w (toString (YOUTUBE_API_KEY e)) cs) = Some c"
    using assms(2) by (simp add: competitor_branch_def promise_all_settled)
  have r: "\<exists>r. fst (reddit_branch w cache (toString (REDDIT_CLIENT_ID e))
                      (toString (REDDIT_CLIENT_SECRET e)) ss) = Some r"
    using assms(3) by (auto simp: reddit_branch_def promise_all_settled split: prod.splits)
  from t c r show ?thesis
    by (auto simp: collect_def split: prod.splits)
qed

lemma handler_invalid:
  "http_method req = lit ''POST'' \<Longrightarrow> \<not> valid_body (destructured req)
     \<Longrightarrow> handler w cache e req = (Some invalid_request_response, cache, [])"
  by (simp add: handler_def post_not_options)


lemma strategy_response:
  "fst (strategy w cache e b) = Some r \<Longrightarrow> (\<exists>err. r = internal_error err) \<or> status r = 200"
  by (auto simp: strategy_def success_response_def split: prod.splits option.splits sum.splits)

lemma strategy_not_configuration_error:
  "fst (strategy w cache e b) \<noteq> Some configuration_error_response"
proof
  assume "fst (strategy w cache e b) = Some configuration_error_response"
  from strategy_response [OF this] show False
    by (auto simp: configuration_error_response_def internal_error_def error_body_def)
qed


subsection \<open>The examples\<close>

lemma sample_valid: "valid_body (destructured (post sample_body))"
  by (simp add: valid_body_def destructured_def post_def sample_body_def lit_def)

lemma sample_configured: "configured sample_env"
  by (simp add: configured_def sample_env_def lit_def)






lemma lone_surrogate_query:
  "\<not> well_formed (toString (JStr [0xD800]) @ lit '' '' @ toString (JStr (lit ''grow subscribers'')))"
  by (simp add: lit_def is_high_def is_low_def)

section \<open>The claims\<close>

subsection \<open>C1: the placeholder in the prompt\<close>



subsection \<open>C2: empty input lists\<close>

text \<open>
  C2 as stated fails for the community branch: with an empty list of subreddits and an
  empty cache, the branch still sends the credential exchange.
\<close>

theorem empty_subreddits_counterexample:
  "snd (snd (reddit_branch sample_world redditToken_init (lit ''reddit-id'') (lit ''reddit-secret'') []))
     = [RedditAccessToken (lit ''reddit-id'') (lit ''reddit-secret'')]
   \<and> snd (snd (reddit_branch sample_world redditToken_init (lit ''reddit-id'') (lit ''reddit-secret'') []))
     \<noteq> []"
  by (simp add: reddit_branch_def sample_world_def redditToken_init_def getRedditAccessToken_def
        getprop_def Let_def lit_def)

text \<open>
  C2, amended.  With an empty list of channels, the channel branch sends no request and
  yields the empty sequence.  With an empty list of subreddits, the community branch
  yields the empty sequence and sends no listing request; it sends the credential
  exchange, and only that, unless the cache holds a token that has not expired.
\<close>

theorem empty_lists_branches:
  "competitor_branch w apiKey [] = (Some [], [])
   \<and> fst (reddit_branch w cache clientId clientSecret []) = Some []
   \<and> snd (snd (reddit_branch w cache clientId clientSecret []))
       = (if cache_fresh cache (now_test w) then [] else [RedditAccessToken clientId clientSecret])"
proof (intro conjI)
  show "competitor_branch w apiKey [] = (Some [], [])"
    by (simp add: competitor_branch_def promise_all_nil)
  show "fst (reddit_branch w cache clientId clientSecret []) = Some []"
    by (simp add: reddit_branch_def promise_all_nil split: prod.splits)
  show "snd (snd (reddit_branch w cache clientId clientSecret []))
       = (if cache_fresh cache (now_test w) then [] else [RedditAccessToken clientId clientSecret])"
    using token_calls [of "fetch w" "now_test w" "now_stamp w" cache clientId clientSecret]
    by (auto simp: reddit_branch_def split: prod.splits)
qed

subsection \<open>C3: errors of the adapters\<close>

text \<open>
  C3 is what the code aims at, and misses in \<open>searchYouTubeVideos\<close>, which encodes its
  query before its \<^verbatim>\<open>try\<close> block.  For a body whose audience holds a lone surrogate the
  encoding raises, the data collection fails, and the handler answers with a server
  error whose details are the message of the \<^verbatim>\<open>URIError\<close>; this on every network and
  with every cache.
\<close>

theorem uri_error_escapes_collection:
  "fst (handler w cache sample_env (post lone_surrogate_body))
     = Some \<lparr>status = 500, headers = cors,
             sent = Json (JObj [(lit ''error'', JStr (lit ''An internal server error occurred.'')),
                                (lit ''details'', JStr (lit ''URI malformed''))])\<rparr>"
proof -
  have v: "valid_body (destructured (post lone_surrogate_body))"
    by (simp add: valid_body_def destructured_def post_def lone_surrogate_body_def lit_def)
  have a: "member (destructured (post lone_surrogate_body)) (lit ''audience'') = JStr [0xD800]"
    by (simp add: destructured_def post_def lone_surrogate_body_def lit_def)
  have g: "member (destructured (post lone_surrogate_body)) (lit ''goal'')
             = JStr (lit ''grow subscribers'')"
    by (simp add: destructured_def post_def lone_surrogate_body_def lit_def)
  have "fst (strategy w cache sample_env (destructured (post lone_surrogate_body)))
          = Some (internal_error URIError)"
    unfolding strategy_def collect_def a g
    using search_raises_uri_error [OF lone_surrogate_query]
    by (simp split: prod.splits)
  with v sample_configured show ?thesis
    by (simp add: handler_def post_def post_not_options internal_error_def)
qed

subsection \<open>C4: the token cache\<close>

text \<open>
  C4 as stated fails in its last part: for a call at time 0 whose response arrives at
  time 1, the stored expiry is 50 minutes after 1, not after 0.
\<close>

theorem stamp_after_response_counterexample:
  "expires (fst (snd (getRedditAccessToken sample_net 0 1 redditToken_init (lit ''reddit-id'')
                        (lit ''reddit-secret'')))) = 1 + 50 * 60 * 1000
   \<and> expires (fst (snd (getRedditAccessToken sample_net 0 1 redditToken_init (lit ''reddit-id'')
                        (lit ''reddit-secret'')))) \<noteq> 0 + 50 * 60 * 1000"
  by (simp add: getRedditAccessToken_def redditToken_init_def getprop_def Let_def lit_def)

text \<open>
  C4, amended.  For a call at time \<open>now\<close>: if a cached token exists and \<open>now\<close> is strictly
  before its expiry, the cached value is returned as it is and no request is sent.
  Otherwise, also at the very instant of expiry, exactly the credential exchange is
  sent; when it succeeds, the new token is returned and stored with an expiry of 50
  minutes after \<open>now'\<close>, the time at which the response has arrived.
\<close>

theorem token_cache_expiry:
  "(cache_fresh cache now
      \<longrightarrow> getRedditAccessToken net now now' cache clientId clientSecret = (val cache, cache, []))
   \<and> (\<not> cache_fresh cache now
      \<longrightarrow> snd (snd (getRedditAccessToken net now now' cache clientId clientSecret))
            = [RedditAccessToken clientId clientSecret])
   \<and> (\<not> cache_fresh cache now
       \<and> net (RedditAccessToken clientId clientSecret) = Response ok (Parsed v)
       \<and> \<not> exchange_fails (Response ok (Parsed v))
      \<longrightarrow> getRedditAccessToken net now now' cache clientId clientSecret
            = (member v (lit ''access_token''),
               \<lparr>val = member v (lit ''access_token''), expires = now' + 50 * 60 * 1000\<rparr>,
               [RedditAccessToken clientId clientSecret]))"
  by (auto simp: getRedditAccessToken_def cache_fresh_def getprop_def Let_def split: option.splits)

text \<open>Witness of C4: a token cached until time 10 is reused at time 9 and replaced at
  time 10.\<close>

theorem token_cache_expiry_witness:
  "cache_fresh cached_token 9
   \<and> getRedditAccessToken sample_net 9 9 cached_token (lit ''reddit-id'') (lit ''reddit-secret'')
       = (JStr (lit ''old''), cached_token, [])
   \<and> \<not> cache_fresh cached_token 10
   \<and> sample_net (RedditAccessToken (lit ''reddit-id'') (lit ''reddit-secret''))
       = Response True (Parsed (JObj [(lit ''access_token'', JStr (lit ''tok''))]))
   \<and> \<not> exchange_fails (Response True (Parsed (JObj [(lit ''access_token'', JStr (lit ''tok''))])))
   \<and> getRedditAccessToken sample_net 10 12 cached_token (lit ''reddit-id'') (lit ''reddit-secret'')
       = (JStr (lit ''tok''), \<lparr>val = JStr (lit ''tok''), expires = 3000012\<rparr>,
          [RedditAccessToken (lit ''reddit-id'') (lit ''reddit-secret'')])"
proof -
  have f: "cache_fresh cached_token 9" and s: "\<not> cache_fresh cached_token 10"
    by (simp_all add: cache_fresh_def cached_token_def lit_def)
  have n: "sample_net (RedditAccessToken (lit ''reddit-id'') (lit ''reddit-secret''))
       = Response True (Parsed (JObj [(lit ''access_token'', JStr (lit ''tok''))]))"
    by simp
  have x: "\<not> exchange_fails (Response True (Parsed (JObj [(lit ''access_token'', JStr (lit ''tok''))])))"
    by (simp add: lit_def)
  have v: "val cached_token = JStr (lit ''old'')"
    by (simp add: cached_token_def)
  have t: "member (JObj [(lit ''access_token'', JStr (lit ''tok''))]) (lit ''access_token'')
             = JStr (lit ''tok'')"
    by simp
  from f s n x v t
    token_cache_expiry [of cached_token 9 sample_net 9 "lit ''reddit-id''" "lit ''reddit-secret''"]
    token_cache_expiry [of cached_token 10 sample_net 12 "lit ''reddit-id''" "lit ''reddit-secret''"
      True "JObj [(lit ''access_token'', JStr (lit ''tok''))]"]
  show ?thesis by simp
qed

subsection \<open>C5: a failed credential acquisition\<close>



subsection \<open>C6: the order of the results\<close>



subsection \<open>C7: a failed credential exchange\<close>

text \<open>
  C7.  When the cache does not answer and the credential exchange fails (a network
  error, a malformed response, a response without a token), \<open>getRedditAccessToken\<close>
  returns \<^verbatim>\<open>null\<close> and the cache is as it was.  More generally, whenever it returns
  \<^verbatim>\<open>null\<close>, the cache is as it was.
\<close>

theorem failed_exchange_keeps_cache:
  "(\<not> cache_fresh cache now \<and> exchange_fails (net (RedditAccessToken clientId clientSecret))
      \<longrightarrow> getRedditAccessToken net now now' cache clientId clientSecret
            = (JNull, cache, [RedditAccessToken clientId clientSecret]))
   \<and> (fst (getRedditAccessToken net now now' cache clientId clientSecret) = JNull
      \<longrightarrow> fst (snd (getRedditAccessToken net now now' cache clientId clientSecret)) = cache)"
  using token_absent_iff [of net now now' cache clientId clientSecret]
    token_absent_result [of net now now' cache clientId clientSecret]
  by auto

text \<open>Witness of C7: the exchange is rejected, with an empty cache.\<close>

theorem failed_exchange_keeps_cache_witness:
  "\<not> cache_fresh redditToken_init 0
   \<and> exchange_fails (no_token_net (RedditAccessToken (lit ''reddit-id'') (lit ''reddit-secret'')))
   \<and> getRedditAccessToken no_token_net 0 1 redditToken_init (lit ''reddit-id'') (lit ''reddit-secret'')
       = (JNull, redditToken_init, [RedditAccessToken (lit ''reddit-id'') (lit ''reddit-secret'')])
   \<and> fst (getRedditAccessToken no_token_net 0 1 redditToken_init (lit ''reddit-id'') (lit ''reddit-secret''))
       = JNull
   \<and> fst (snd (getRedditAccessToken no_token_net 0 1 redditToken_init (lit ''reddit-id'')
                  (lit ''reddit-secret''))) = redditToken_init"
proof -
  have h: "\<not> cache_fresh redditToken_init 0
     \<and> exchange_fails (no_token_net (RedditAccessToken (lit ''reddit-id'') (lit ''reddit-secret'')))"
    by (simp add: cache_fresh_def redditToken_init_def no_token_net_def)
  with failed_exchange_keeps_cache [of redditToken_init 0 no_token_net "lit ''reddit-id''"
      "lit ''reddit-secret''" 1]
  show ?thesis by simp
qed

subsection \<open>C8: a failed generation\<close>




subsection \<open>C9: invalid requests\<close>

text \<open>
  C9.  A POST whose body lacks \<^verbatim>\<open>audience\<close> or \<^verbatim>\<open>goal\<close>, or whose
  \<^verbatim>\<open>competitorYouTubeChannels\<close> or \<^verbatim>\<open>relevantSubreddits\<close> is not an array, is answered
  with 400 and an error body; no request is sent and the token cache is untouched.
\<close>

theorem invalid_body_400_no_calls:
  assumes "http_method req = lit ''POST''"
    and "member (destructured req) (lit ''audience'') = JUndefined
         \<or> member (destructured req) (lit ''goal'') = JUndefined
         \<or> \<not> isArray (member (destructured req) (lit ''competitorYouTubeChannels''))
         \<or> \<not> isArray (member (destructured req) (lit ''relevantSubreddits''))"
  shows "handler w cache e req = (Some invalid_request_response, cache, [])"
proof -
  from assms(2) have "\<not> valid_body (destructured req)"
    unfolding valid_body_def by auto
  with assms(1) show ?thesis by (rule handler_invalid)
qed

text \<open>Witness of C9: a body without \<^verbatim>\<open>audience\<close>.\<close>

theorem invalid_body_400_no_calls_witness:
  "http_method (post no_audience_body) = lit ''POST''
   \<and> member (destructured (post no_audience_body)) (lit ''audience'') = JUndefined
   \<and> handler sample_world redditToken_init sample_env (post no_audience_body)
       = (Some invalid_request_response, redditToken_init, [])"
proof -
  have m: "http_method (post no_audience_body) = lit ''POST''"
    by (simp add: post_def)
  have a: "member (destructured (post no_audience_body)) (lit ''audience'') = JUndefined"
    by (simp add: destructured_def post_def no_audience_body_def lit_def)
  from a have "member (destructured (post no_audience_body)) (lit ''audience'') = JUndefined
         \<or> member (destructured (post no_audience_body)) (lit ''goal'') = JUndefined
         \<or> \<not> isArray (member (destructured (post no_audience_body)) (lit ''competitorYouTubeChannels''))
         \<or> \<not> isArray (member (destructured (post no_audience_body)) (lit ''relevantSubreddits''))"
    by (rule disjI1)
  from invalid_body_400_no_calls [OF m this] m a show ?thesis by simp
qed

subsection \<open>C10: validation before configuration\<close>

text \<open>
  C10.  A POST whose body is absent, or whose \<^verbatim>\<open>audience\<close> or \<^verbatim>\<open>goal\<close> is present but
  counts as false (the empty string, for one), is answered with 400, as a regular
  response and whatever the environment holds; and the configuration error is the
  answer only to a body that passes the validation.
\<close>

theorem validation_precedes_configuration:
  "(http_method req = lit ''POST'' \<and>
      (\<not> truthy (body req) \<or> \<not> truthy (member (body req) (lit ''audience''))
        \<or> \<not> truthy (member (body req) (lit ''goal'')))
     \<longrightarrow> handler w cache e req = (Some invalid_request_response, cache, []))
   \<and> (fst (handler w cache e req) = Some configuration_error_response
     \<longrightarrow> valid_body (destructured req) \<and> \<not> configured e)"
proof (intro conjI impI)
  assume a: "http_method req = lit ''POST'' \<and>
      (\<not> truthy (body req) \<or> \<not> truthy (member (body req) (lit ''audience''))
        \<or> \<not> truthy (member (body req) (lit ''goal'')))"
  then have "\<not> valid_body (destructured req)"
    by (auto simp: valid_body_def destructured_def)
  with a show "handler w cache e req = (Some invalid_request_response, cache, [])"
    by (simp add: handler_invalid)
next
  assume c: "fst (handler w cache e req) = Some configuration_error_response"
  show "valid_body (destructured req)"
  proof (rule ccontr)
    assume "\<not> valid_body (destructured req)"
    with c show False
      using strategy_not_configuration_error [of w cache e "destructured req"]
      by (auto simp: handler_def configuration_error_response_def invalid_request_response_def
            method_not_allowed_response_def split: if_splits)
  qed
next
  assume c: "fst (handler w cache e req) = Some configuration_error_response"
  show "\<not> configured e"
  proof
    assume "configured e"
    with c show False
      using strategy_not_configuration_error [of w cache e "destructured req"]
      by (auto simp: handler_def configuration_error_response_def invalid_request_response_def
            method_not_allowed_response_def split: if_splits)
  qed
qed

text \<open>Witness of C10: an absent body and an empty audience with no environment variable
  set, and the sample body with no environment variable set.\<close>

theorem validation_precedes_configuration_witness:
  "http_method (post JUndefined) = lit ''POST'' \<and> \<not> truthy (body (post JUndefined))
   \<and> handler sample_world redditToken_init unset_env (post JUndefined)
       = (Some invalid_request_response, redditToken_init, [])
   \<and> \<not> truthy (member (body (post empty_audience_body)) (lit ''audience''))
   \<and> handler sample_world redditToken_init unset_env (post empty_audience_body)
       = (Some invalid_request_response, redditToken_init, [])
   \<and> fst (handler sample_world redditToken_init unset_env (post sample_body))
       = Some configuration_error_response
   \<and> valid_body (destructured (post sample_body)) \<and> \<not> configured unset_env"
proof -
  have m: "http_method (post JUndefined) = lit ''POST'' \<and> \<not> truthy (body (post JUndefined))"
    by (simp add: post_def)
  have m': "http_method (post empty_audience_body) = lit ''POST''
      \<and> \<not> truthy (member (body (post empty_audience_body)) (lit ''audience''))"
    by (simp add: post_def empty_audience_body_def lit_def)
  have c: "fst (handler sample_world redditToken_init unset_env (post sample_body))
       = Some configuration_error_response"
    using sample_valid
    by (simp add: handler_def post_def post_not_options configured_def unset_env_def)
  from m m' c
    validation_precedes_configuration [of "post JUndefined" sample_world redditToken_init unset_env]
    validation_precedes_configuration [of "post empty_audience_body" sample_world redditToken_init
      unset_env]
    validation_precedes_configuration [of "post sample_body" sample_world redditToken_init unset_env]
  show ?thesis by simp
qed

end
